theory Spec2Isabelle
  imports Complex_Main
begin

section \<open>JavaScript values\<close>

text \<open>
  The connector (\<^verbatim>\<open>src/index.js\<close>) and the aggregation script
  (\<^verbatim>\<open>src/unnamed/part_000\<close>) probe loosely typed values with \<^verbatim>\<open>typeof\<close>,
  property reads and strict comparisons. The values are modelled as they are at run time:
  the JSON shapes a response body can take, \<^verbatim>\<open>undefined\<close>, \<^verbatim>\<open>NaN\<close>, a native
  \<^verbatim>\<open>Error\<close> object (name and message) and the reference to the one client object.
  A number is the rational value of an IEEE double, or \<^verbatim>\<open>NaN\<close>; the infinities are
  not modelled, and where the code divides, the rounding of the exact quotient to a
  double is the environment's. An object is the association list of its own properties;
  a read takes the first entry of a key.
\<close>

datatype jsval =
    JUndefined
  | JNull
  | JBool bool
  | JNum rat
  | JNaN
  | JStr string
  | JArr "jsval list"
  | JObj "(string \<times> jsval) list"
  | JError string string
  | JClient

fun typeof :: "jsval \<Rightarrow> string" where
  "typeof JUndefined = ''undefined''"
| "typeof JNull = ''object''"
| "typeof (JBool b) = ''boolean''"
| "typeof (JNum r) = ''number''"
| "typeof JNaN = ''number''"
| "typeof (JStr s) = ''string''"
| "typeof (JArr xs) = ''object''"
| "typeof (JObj kvs) = ''object''"
| "typeof (JError n m) = ''object''"
| "typeof JClient = ''object''"

text \<open>
  The \<^verbatim>\<open>TypeError\<close>s the engine raises. ECMAScript fixes the error class, not the
  wording of the message, so the message is a description of the failed operation.
\<close>

definition cannot_read :: "string \<Rightarrow> jsval" where
  "cannot_read k = JError ''TypeError'' (''Cannot read property '' @ k @ '' of undefined or null'')"

definition not_a_function :: "string \<Rightarrow> jsval" where
  "not_a_function k = JError ''TypeError'' (k @ '' is not a function'')"

definition cannot_set :: "string \<Rightarrow> jsval" where
  "cannot_set k = JError ''TypeError'' (''Cannot set property '' @ k @ '' of undefined'')"

text \<open>Decimal rendering of a natural number (\<^verbatim>\<open>num + ""\<close>, and the key of an array index).\<close>

fun dec :: "nat \<Rightarrow> string" where
  "dec n = (if n < 10 then [''0123456789'' ! n]
            else dec (n div 10) @ [''0123456789'' ! (n mod 10)])"

declare dec.simps [simp del]

text \<open>
  \<^verbatim>\<open>v.k\<close> for a property name \<open>k\<close>: reading a property of \<^verbatim>\<open>undefined\<close> or
  \<^verbatim>\<open>null\<close> throws; a missing property reads as \<^verbatim>\<open>undefined\<close>. Arrays and strings
  have \<^verbatim>\<open>length\<close> (a string is taken to be ASCII, one character per unit); their
  elements are read by index, below. The data property of the client (\<^verbatim>\<open>_token\<close>)
  lives in the state and its methods are reached through \<open>call_method\<close>; the source
  never reads either through a reference.
\<close>

fun prop_of :: "jsval \<Rightarrow> string \<Rightarrow> jsval" where
  "prop_of (JObj kvs) k = (case map_of kvs k of Some v \<Rightarrow> v | None \<Rightarrow> JUndefined)"
| "prop_of (JArr xs) k = (if k = ''length'' then JNum (of_nat (length xs)) else JUndefined)"
| "prop_of (JStr s) k = (if k = ''length'' then JNum (of_nat (length s)) else JUndefined)"
| "prop_of (JError n m) k =
     (if k = ''message'' then JStr m else if k = ''name'' then JStr n else JUndefined)"
| "prop_of v k = JUndefined"

fun get_prop :: "jsval \<Rightarrow> string \<Rightarrow> jsval + jsval" where
  "get_prop JUndefined k = Inl (cannot_read k)"
| "get_prop JNull k = Inl (cannot_read k)"
| "get_prop v k = Inr (prop_of v k)"

text \<open>\<^verbatim>\<open>v[i]\<close> for a numeric index: out of range reads as \<^verbatim>\<open>undefined\<close>.\<close>

fun get_index :: "jsval \<Rightarrow> nat \<Rightarrow> jsval + jsval" where
  "get_index JUndefined i = Inl (cannot_read (dec i))"
| "get_index JNull i = Inl (cannot_read (dec i))"
| "get_index (JArr xs) i = Inr (if i < length xs then xs ! i else JUndefined)"
| "get_index (JStr s) i = Inr (if i < length s then JStr [s ! i] else JUndefined)"
| "get_index v i = Inr (prop_of v (dec i))"

text \<open>A chain of member accesses \<^verbatim>\<open>v.a[0].b\<close>, left to right, stopping at the first throw.\<close>

datatype sel = Key string | Idx nat

fun path :: "jsval \<Rightarrow> sel list \<Rightarrow> jsval + jsval" where
  "path v [] = Inr v"
| "path v (Key k # ks) = (case get_prop v k of Inl e \<Rightarrow> Inl e | Inr u \<Rightarrow> path u ks)"
| "path v (Idx i # ks) = (case get_index v i of Inl e \<Rightarrow> Inl e | Inr u \<Rightarrow> path u ks)"

section \<open>The cloud connector client (src/index.js)\<close>

text \<open>
  A request as handed to the \<^verbatim>\<open>request\<close> library, and the state the client's methods
  read and write: the session token (\<^verbatim>\<open>this._token\<close>) and the requests issued so far,
  oldest first. A promise is modelled by how it settles.
\<close>

record reqdata =
  http_method :: string
  url :: string
  headers :: "(string \<times> string) list"
  form :: "jsval option"
  json :: bool

record world =
  token :: string
  sent :: "reqdata list"

datatype outcome =
    Resolved jsval
  | Rejected jsval
  | Threw jsval
  | Crashed jsval

text \<open>
  \<open>Resolved\<close> and \<open>Rejected\<close> are a settled promise. \<open>Threw\<close> is an exception
  thrown synchronously by the called function, before it returns a promise. \<open>Crashed\<close> is
  an exception thrown inside the callback of \<^verbatim>\<open>request\<close>: nothing catches it and the
  promise never settles.
\<close>

text \<open>
  What the code takes from outside: the \<^verbatim>\<open>request\<close> library with the network behind it
  (the arguments \<^verbatim>\<open>(error, response, body)\<close> it hands to the callback of the n-th
  request), the clock reading (hours, minutes, seconds, milliseconds), the built-ins
  whose result depends on parsing, time zone or hashing (\<^verbatim>\<open>Number\<close> on strings and
  objects, \<^verbatim>\<open>new Date(v).toString()\<close>, SHA-256 in hex, \<^verbatim>\<open>==\<close> between a string and
  a number, boolean or object), the rounding of a rational to the nearest double, and
  the variables of the process environment.
\<close>

record env =
  request :: "nat \<Rightarrow> reqdata \<Rightarrow> jsval \<times> jsval \<times> jsval"
  clock :: "nat \<times> nat \<times> nat \<times> nat"
  number_of :: "jsval \<Rightarrow> jsval"
  date_toString :: "jsval \<Rightarrow> string"
  sha256_hex :: "string \<Rightarrow> string"
  loose_eq_other :: "string \<Rightarrow> jsval \<Rightarrow> bool"
  round_double :: "rat \<Rightarrow> rat"
  API_KEY :: string
  API_ACCOUNT :: jsval
  API_PWD :: jsval
  API_COUNTRY_CODE :: jsval

definition AccountBaseUrl :: string where
  "AccountBaseUrl = ''https://account.niu.com''"

definition AppApiBaseUrl :: string where
  "AppApiBaseUrl = ''https://app-api.niu.com''"

subsection \<open>_getTime and _error\<close>

function paddingHead_loop :: "string \<Rightarrow> nat \<Rightarrow> string" where
  "paddingHead_loop str size' =
     (if length str < size' then paddingHead_loop (''0'' @ str) size' else str)"
  by pat_completeness auto
termination
  by (relation "measure (\<lambda>(str, size'). size' - length str)") auto

function paddingTail_loop :: "string \<Rightarrow> nat \<Rightarrow> string" where
  "paddingTail_loop str size' =
     (if length str < size' then paddingTail_loop (str @ ''0'') size' else str)"
  by pat_completeness auto
termination
  by (relation "measure (\<lambda>(str, size'). size' - length str)") auto

declare paddingHead_loop.simps [simp del] paddingTail_loop.simps [simp del]

definition paddingHead :: "nat \<Rightarrow> nat \<Rightarrow> string" where
  "paddingHead num size' = paddingHead_loop (dec num) size'"

definition paddingTail :: "nat \<Rightarrow> nat \<Rightarrow> string" where
  "paddingTail num size' = paddingTail_loop (dec num) size'"

text \<open>\<^verbatim>\<open>_getTime\<close>, on the clock reading (hours, minutes, seconds, milliseconds).\<close>

definition priv_getTime :: "env \<Rightarrow> string" where
  "priv_getTime e =
     (case clock e of (h, m, s, ms) \<Rightarrow>
        paddingHead h 2 @ '':'' @ paddingHead m 2 @ '':'' @ paddingHead s 2 @ ''.'' @
        paddingTail ms 3)"

text \<open>\<^verbatim>\<open>_error(errorInfo, funcName)\<close>.\<close>

definition priv_error :: "env \<Rightarrow> jsval \<Rightarrow> jsval \<Rightarrow> jsval" where
  "priv_error e errorInfo funcName =
     JObj [(''client'', JClient),
           (''debug'', JObj [(''date'', JStr (priv_getTime e)), (''funcName'', funcName)]),
           (''error'',
              if typeof errorInfo = ''string'' then JObj [(''message'', errorInfo)]
              else if typeof errorInfo = ''object'' then errorInfo
              else JObj [(''message'', JStr ''Invalid error info.'')])]"

definition reject_with :: "env \<Rightarrow> string \<Rightarrow> string \<Rightarrow> world \<Rightarrow> outcome \<times> world" where
  "reject_with e msg funcName w = (Rejected (priv_error e (JStr msg) (JStr funcName)), w)"

text \<open>Handing a request to the library: it is logged and the callback's arguments come back.\<close>

definition do_request :: "env \<Rightarrow> reqdata \<Rightarrow> world \<Rightarrow> (jsval \<times> jsval \<times> jsval) \<times> world" where
  "do_request e rd w = (request e (length (sent w)) rd, w\<lparr>sent := sent w @ [rd]\<rparr>)"

subsection \<open>createSessionToken and setSessionToken\<close>

definition createSessionToken_callback ::
  "env \<Rightarrow> jsval \<Rightarrow> jsval \<Rightarrow> jsval \<Rightarrow> world \<Rightarrow> outcome \<times> world" where
  "createSessionToken_callback e error response body w =
     (let funcName = ''createSessionToken()'' in
      if error \<noteq> JNull then (Rejected (priv_error e error (JStr funcName)), w)
      else if typeof response \<noteq> ''object'' then reject_with e ''Invalid response.'' funcName w
      else (case get_prop response ''statusCode'' of
        Inl x \<Rightarrow> (Crashed x, w)
      | Inr statusCode \<Rightarrow>
          if typeof statusCode \<noteq> ''number'' then reject_with e ''Status code is missing.'' funcName w
          else if statusCode \<noteq> JNum 200 then reject_with e ''Bad request.'' funcName w
          else if typeof body \<noteq> ''object'' then reject_with e ''No body received.'' funcName w
          else (case get_prop body ''status'' of
            Inl x \<Rightarrow> (Crashed x, w)
          | Inr status \<Rightarrow>
              if typeof status = ''number'' \<and> status \<noteq> JNum 0
              then reject_with e ''Invalid login data.'' funcName w
              else (case get_prop body ''data'' of
                Inl x \<Rightarrow> (Crashed x, w)
              | Inr data' \<Rightarrow>
                  if typeof data' \<noteq> ''object''
                  then reject_with e ''Data is missing in response.'' funcName w
                  else (case get_prop data' ''token'' of
                    Inl x \<Rightarrow> (Crashed x, w)
                  | Inr (JStr tok) \<Rightarrow>
                      if length tok = 0
                      then reject_with e ''Token is empty in response.'' funcName w
                      else (Resolved (JObj [(''client'', JClient), (''result'', JStr tok)]),
                            w\<lparr>token := tok\<rparr>)
                  | Inr _ \<Rightarrow> reject_with e ''Token is missing in response.'' funcName w)))))"

definition login_request :: "jsval \<Rightarrow> reqdata" where
  "login_request options =
     \<lparr>http_method = ''POST'', url = AccountBaseUrl @ ''/appv2/login'',
      headers = [], form = Some options, json = True\<rparr>"

definition createSessionToken :: "env \<Rightarrow> jsval \<Rightarrow> world \<Rightarrow> outcome \<times> world" where
  "createSessionToken e options w =
     (let funcName = ''createSessionToken()'' in
      if typeof options \<noteq> ''object'' then reject_with e ''Options is missing.'' funcName w
      else (case get_prop options ''account'' of
        Inl x \<Rightarrow> (Threw x, w)
      | Inr account \<Rightarrow>
          if typeof account \<noteq> ''string'' then reject_with e ''Account is missing.'' funcName w
          else (case get_prop options ''password'' of
            Inl x \<Rightarrow> (Threw x, w)
          | Inr password \<Rightarrow>
              if typeof password \<noteq> ''string''
              then reject_with e ''Password is missing.'' funcName w
              else (case get_prop options ''countryCode'' of
                Inl x \<Rightarrow> (Threw x, w)
              | Inr countryCode \<Rightarrow>
                  if typeof countryCode \<noteq> ''string''
                  then reject_with e ''Country code is missing.'' funcName w
                  else
                    (case do_request e (login_request options) w of
                       ((error, response, body), w') \<Rightarrow>
                         createSessionToken_callback e error response body w')))))"

definition setSessionToken :: "env \<Rightarrow> jsval \<Rightarrow> world \<Rightarrow> outcome \<times> world" where
  "setSessionToken e options w =
     (let funcName = ''setSessionToken()'' in
      if typeof options \<noteq> ''object'' then reject_with e ''Options is missing.'' funcName w
      else case get_prop options ''token'' of
        Inl x \<Rightarrow> (Threw x, w)
      | Inr (JStr tok) \<Rightarrow>
          (Resolved (JObj [(''client'', JClient), (''result'', JNull)]), w\<lparr>token := tok\<rparr>)
      | Inr _ \<Rightarrow> reject_with e ''Token is missing.'' funcName w)"

subsection \<open>_makeRequest\<close>

definition priv_makeRequest_callback ::
  "env \<Rightarrow> jsval \<Rightarrow> jsval \<Rightarrow> jsval \<Rightarrow> world \<Rightarrow> outcome \<times> world" where
  "priv_makeRequest_callback e error response body w =
     (let funcName = ''_makeRequest()'' in
      if error \<noteq> JNull then (Rejected (priv_error e error (JStr funcName)), w)
      else if typeof response \<noteq> ''object'' then reject_with e ''Unknown error.'' funcName w
      else (case get_prop response ''statusCode'' of
        Inl x \<Rightarrow> (Crashed x, w)
      | Inr statusCode \<Rightarrow>
          if typeof statusCode \<noteq> ''number'' then reject_with e ''Status code is missing.'' funcName w
          else if statusCode \<noteq> JNum 200 then reject_with e ''Bad request.'' funcName w
          else if typeof body \<noteq> ''object'' then reject_with e ''No body received.'' funcName w
          else (case get_prop body ''status'' of
            Inl x \<Rightarrow> (Crashed x, w)
          | Inr status \<Rightarrow>
              if typeof status = ''number'' \<and> status \<noteq> JNum 0
              then (Rejected (priv_error e body (JStr funcName)), w)
              else (Resolved (JObj [(''client'', JClient), (''result'', body)]), w))))"

definition build_reqData :: "world \<Rightarrow> string \<Rightarrow> jsval \<Rightarrow> reqdata" where
  "build_reqData w path' postData =
     (let reqData = \<lparr>http_method = ''GET'', url = AppApiBaseUrl @ path',
                     headers = [(''accept-language'', ''en-US''), (''token'', token w)],
                     form = None, json = True\<rparr>
      in if typeof postData = ''object''
         then reqData\<lparr>http_method := ''POST'', form := Some postData\<rparr>
         else reqData)"

definition priv_makeRequest :: "env \<Rightarrow> jsval \<Rightarrow> world \<Rightarrow> outcome \<times> world" where
  "priv_makeRequest e options w =
     (let funcName = ''_makeRequest()'' in
      if typeof options \<noteq> ''object'' then reject_with e ''Options is missing.'' funcName w
      else (case get_prop options ''path'' of
        Inl x \<Rightarrow> (Threw x, w)
      | Inr (JStr path') \<Rightarrow>
          (case do_request e (build_reqData w path' (prop_of options ''postData'')) w of
             ((error, response, body), w') \<Rightarrow>
               priv_makeRequest_callback e error response body w')
      | Inr _ \<Rightarrow> reject_with e ''Path is missing.'' funcName w))"

subsection \<open>The endpoint accessors\<close>

definition getVehicles :: "env \<Rightarrow> world \<Rightarrow> outcome \<times> world" where
  "getVehicles e w =
     (let funcName = ''getVehicles()'' in
      if length (token w) = 0 then reject_with e ''No valid token available.'' funcName w
      else priv_makeRequest e
             (JObj [(''path'', JStr ''/motoinfo/list''), (''postData'', JObj [])]) w)"

text \<open>
  The three accessors that take only a serial number share their shape; each is written
  out as in the source, with the \<^verbatim>\<open>funcName\<close> the source gives it.
\<close>

definition getBatteryInfo :: "env \<Rightarrow> jsval \<Rightarrow> world \<Rightarrow> outcome \<times> world" where
  "getBatteryInfo e options w =
     (let funcName = ''getBatteryInfo()'' in
      if length (token w) = 0 then reject_with e ''No valid token available.'' funcName w
      else if typeof options \<noteq> ''object'' then reject_with e ''Options is missing.'' funcName w
      else (case get_prop options ''sn'' of
        Inl x \<Rightarrow> (Threw x, w)
      | Inr (JStr sn) \<Rightarrow>
          priv_makeRequest e
            (JObj [(''path'', JStr (''/v3/motor_data/battery_info?sn='' @ sn))]) w
      | Inr _ \<Rightarrow> reject_with e ''Vehicle serial number is missing.'' funcName w))"

definition getBatteryHealth :: "env \<Rightarrow> jsval \<Rightarrow> world \<Rightarrow> outcome \<times> world" where
  "getBatteryHealth e options w =
     (let funcName = ''getBatteryInfo()'' in
      if length (token w) = 0 then reject_with e ''No valid token available.'' funcName w
      else if typeof options \<noteq> ''object'' then reject_with e ''Options is missing.'' funcName w
      else (case get_prop options ''sn'' of
        Inl x \<Rightarrow> (Threw x, w)
      | Inr (JStr sn) \<Rightarrow>
          priv_makeRequest e
            (JObj [(''path'', JStr (''/v3/motor_data/battery_info/health?sn='' @ sn))]) w
      | Inr _ \<Rightarrow> reject_with e ''Vehicle serial number is missing.'' funcName w))"

definition getMotorInfo :: "env \<Rightarrow> jsval \<Rightarrow> world \<Rightarrow> outcome \<times> world" where
  "getMotorInfo e options w =
     (let funcName = ''getMotorInfo()'' in
      if length (token w) = 0 then reject_with e ''No valid token available.'' funcName w
      else if typeof options \<noteq> ''object'' then reject_with e ''Options is missing.'' funcName w
      else (case get_prop options ''sn'' of
        Inl x \<Rightarrow> (Threw x, w)
      | Inr (JStr sn) \<Rightarrow>
          priv_makeRequest e
            (JObj [(''path'', JStr (''/v3/motor_data/index_info?sn='' @ sn))]) w
      | Inr _ \<Rightarrow> reject_with e ''Vehicle serial number is missing.'' funcName w))"

definition getOverallTally :: "env \<Rightarrow> jsval \<Rightarrow> world \<Rightarrow> outcome \<times> world" where
  "getOverallTally e options w =
     (let funcName = ''getOverallTally()'' in
      if length (token w) = 0 then reject_with e ''No valid token available.'' funcName w
      else if typeof options \<noteq> ''object'' then reject_with e ''Options is missing.'' funcName w
      else (case get_prop options ''sn'' of
        Inl x \<Rightarrow> (Threw x, w)
      | Inr (JStr sn) \<Rightarrow>
          priv_makeRequest e
            (JObj [(''path'', JStr ''/motoinfo/overallTally''),
                   (''postData'', JObj [(''sn'', JStr sn)])]) w
      | Inr _ \<Rightarrow> reject_with e ''Vehicle serial number is missing.'' funcName w))"

definition getTracks :: "env \<Rightarrow> jsval \<Rightarrow> world \<Rightarrow> outcome \<times> world" where
  "getTracks e options w =
     (let funcName = ''getTracks()'' in
      if length (token w) = 0 then reject_with e ''No valid token available.'' funcName w
      else if typeof options \<noteq> ''object'' then reject_with e ''Options is missing.'' funcName w
      else (case get_prop options ''sn'' of
        Inl x \<Rightarrow> (Threw x, w)
      | Inr (JStr sn) \<Rightarrow>
          (let index = prop_of options ''index''; pageSize = prop_of options ''pageSize'' in
           if typeof index \<noteq> ''number'' then reject_with e ''Index is missing.'' funcName w
           else if typeof pageSize \<noteq> ''number''
           then reject_with e ''Page size is missing.'' funcName w
           else priv_makeRequest e
                  (JObj [(''path'', JStr ''/v3/motor_data/track''),
                         (''postData'', JObj [(''sn'', JStr sn), (''index'', index),
                                             (''pagesize'', pageSize)])]) w)
      | Inr _ \<Rightarrow> reject_with e ''Vehicle serial number is missing.'' funcName w))"

definition getTrackDetail :: "env \<Rightarrow> jsval \<Rightarrow> world \<Rightarrow> outcome \<times> world" where
  "getTrackDetail e options w =
     (let funcName = ''getTrackDetail()'' in
      if length (token w) = 0 then reject_with e ''No valid token available.'' funcName w
      else if typeof options \<noteq> ''object'' then reject_with e ''Options is missing.'' funcName w
      else (case get_prop options ''sn'' of
        Inl x \<Rightarrow> (Threw x, w)
      | Inr (JStr sn) \<Rightarrow>
          (let trackId = prop_of options ''trackId''; trackDate = prop_of options ''trackDate'' in
           if typeof trackId \<noteq> ''string'' then reject_with e ''Track ID is missing.'' funcName w
           else if typeof trackDate \<noteq> ''string''
           then reject_with e ''Track date is missing.'' funcName w
           else priv_makeRequest e
                  (JObj [(''path'', JStr ''/motoinfo/track/detail''),
                         (''postData'', JObj [(''sn'', JStr sn), (''trackId'', trackId),
                                             (''date'', trackDate)])]) w)
      | Inr _ \<Rightarrow> reject_with e ''Vehicle serial number is missing.'' funcName w))"

text \<open>
  The members of \<^verbatim>\<open>niuCloudConnector.Client.prototype\<close>, all twelve that
  \<^verbatim>\<open>src/index.js\<close> defines, by name, each applied to its first argument. The two
  private helpers return a plain value, which stands here as \<open>Resolved\<close>: that is what
  a \<^verbatim>\<open>then\<close> handler returning it yields.
\<close>

definition Client_prototype ::
  "(string \<times> (env \<Rightarrow> jsval \<Rightarrow> world \<Rightarrow> outcome \<times> world)) list" where
  "Client_prototype =
     [(''_getTime'', \<lambda>e a w. (Resolved (JStr (priv_getTime e)), w)),
      (''_error'', \<lambda>e a w. (Resolved (priv_error e a JUndefined), w)),
      (''createSessionToken'', createSessionToken),
      (''setSessionToken'', setSessionToken),
      (''_makeRequest'', priv_makeRequest),
      (''getVehicles'', \<lambda>e a. getVehicles e),
      (''getBatteryInfo'', getBatteryInfo),
      (''getBatteryHealth'', getBatteryHealth),
      (''getMotorInfo'', getMotorInfo),
      (''getOverallTally'', getOverallTally),
      (''getTracks'', getTracks),
      (''getTrackDetail'', getTrackDetail)]"

section \<open>The aggregation script (src/unnamed/part_000)\<close>

subsection \<open>The snapshot and the script's state\<close>

text \<open>
  \<^verbatim>\<open>data\<close> is one object of a fixed shape whose fields start as the constructor
  functions \<^verbatim>\<open>String\<close> and \<^verbatim>\<open>Number\<close> and are overwritten in place. A field is
  either such a placeholder or the value written to it; the path \<^verbatim>\<open>data.vehicle.sn\<close>
  is the field \<open>vehicle_sn\<close>, and so on.
\<close>

datatype field = Ctor string | Val jsval

record slot =
  bms :: field
  capacity :: field
  grade :: field

record snapshot =
  vehicle_sn :: field
  vehicle_type :: field
  vehicle_name :: field
  position_latitude :: field
  position_longitude :: field
  battery_estimated_milage :: field
  battery_batteries :: "slot list"
  current_speed :: field
  total_mileage :: field
  firmware_version :: field
  track_id :: field
  track_start_time :: field
  track_end_time :: field
  track_distance :: field
  track_average_speed :: field
  track_riding_time :: field

definition empty_slot :: slot where
  "empty_slot = \<lparr>bms = Ctor ''String'', capacity = Ctor ''Number'', grade = Ctor ''Number''\<rparr>"

definition data_init :: snapshot where
  "data_init =
     \<lparr>vehicle_sn = Ctor ''String'', vehicle_type = Ctor ''String'', vehicle_name = Ctor ''String'',
      position_latitude = Ctor ''String'', position_longitude = Ctor ''String'',
      battery_estimated_milage = Ctor ''Number'',
      battery_batteries = [empty_slot, empty_slot],
      current_speed = Ctor ''Number'', total_mileage = Ctor ''Number'',
      firmware_version = Ctor ''String'',
      track_id = Ctor ''String'', track_start_time = Ctor ''String'',
      track_end_time = Ctor ''String'', track_distance = Ctor ''Number'',
      track_average_speed = Ctor ''Number'', track_riding_time = Ctor ''Number''\<rparr>"

text \<open>
  A line written by \<^verbatim>\<open>console.log\<close>: a constant text, a constant text followed by a
  value (\<^verbatim>\<open>"..." + v\<close>), the debug line of the catch handler, a value printed as it is,
  or a value printed through \<^verbatim>\<open>JSON.stringify(v, null, 4)\<close>.
\<close>

datatype logline =
    Line string
  | LineWith string jsval
  | DebugLine jsval jsval
  | Plain jsval
  | Pretty jsval

record pstate =
  client :: world
  data :: snapshot
  vehicles :: jsval
  console :: "logline list"

definition state_init :: pstate where
  "state_init = \<lparr>client = \<lparr>token = [], sent = []\<rparr>, data = data_init, vehicles = JArr [],
                  console = []\<rparr>"

definition key_digest :: "env \<Rightarrow> string" where
  "key_digest e = sha256_hex e (API_KEY e)"

subsection \<open>Handler bodies: statements that write the state and may throw\<close>

type_synonym 'a prog = "pstate \<Rightarrow> (jsval + 'a) \<times> pstate"

type_synonym handler = "jsval \<Rightarrow> outcome prog"

definition ret :: "'a \<Rightarrow> 'a prog" where
  "ret x s = (Inr x, s)"

definition bindP :: "'a prog \<Rightarrow> ('a \<Rightarrow> 'b prog) \<Rightarrow> 'b prog" where
  "bindP m f s = (case m s of (Inl x, s') \<Rightarrow> (Inl x, s') | (Inr v, s') \<Rightarrow> f v s')"

definition expr :: "(pstate \<Rightarrow> jsval + 'a) \<Rightarrow> 'a prog" where
  "expr f s = (f s, s)"

definition set_data :: "(snapshot \<Rightarrow> snapshot) \<Rightarrow> unit prog" where
  "set_data f s = (Inr (), s\<lparr>data := f (data s)\<rparr>)"

definition set_battery :: "nat \<Rightarrow> (slot \<Rightarrow> slot) \<Rightarrow> unit prog" where
  "set_battery i f s =
     (let bs = battery_batteries (data s) in
      if i < length bs
      then (Inr (), s\<lparr>data := (data s)\<lparr>battery_batteries := bs[i := f (bs ! i)]\<rparr>\<rparr>)
      else (Inl (cannot_set (dec i)), s))"

definition log_line :: "logline \<Rightarrow> unit prog" where
  "log_line l s = (Inr (), s\<lparr>console := console s @ [l]\<rparr>)"

text \<open>
  \<^verbatim>\<open>target.name(arg)\<close>. On the client the name is looked up among the members of the
  prototype; a name that is not there reads as \<^verbatim>\<open>undefined\<close>, and calling it throws.
  A method that throws before returning its promise throws here as well. The values of
  a response body have no callable members the script uses.
\<close>

definition call_method :: "env \<Rightarrow> jsval \<Rightarrow> string \<Rightarrow> jsval \<Rightarrow> outcome prog" where
  "call_method e target name' arg s =
     (case target of
        JClient \<Rightarrow>
          (case map_of Client_prototype name' of
             None \<Rightarrow> (Inl (not_a_function name'), s)
           | Some m \<Rightarrow>
               (case m e arg (client s) of
                  (Threw x, w') \<Rightarrow> (Inl x, s\<lparr>client := w'\<rparr>)
                | (p, w') \<Rightarrow> (Inr p, s\<lparr>client := w'\<rparr>)))
      | JUndefined \<Rightarrow> (Inl (cannot_read name'), s)
      | JNull \<Rightarrow> (Inl (cannot_read name'), s)
      | _ \<Rightarrow> (Inl (not_a_function name'), s))"

text \<open>
  \<^verbatim>\<open>p.then(h)\<close>: the handler runs only when \<open>p\<close> resolved; an exception in the handler
  rejects the derived promise; a rejection passes the handler by. The state is whatever
  the steps so far have made of it: nothing is undone.
\<close>

definition then_js :: "outcome \<Rightarrow> handler \<Rightarrow> pstate \<Rightarrow> outcome \<times> pstate" where
  "then_js p h s =
     (case p of
        Resolved v \<Rightarrow> (case h v s of (Inl x, s') \<Rightarrow> (Rejected x, s') | (Inr p', s') \<Rightarrow> (p', s'))
      | _ \<Rightarrow> (p, s))"

definition then_p :: "outcome \<Rightarrow> handler \<Rightarrow> outcome prog" where
  "then_p p h s = (case then_js p h s of (p', s') \<Rightarrow> (Inr p', s'))"

fun then_chain :: "outcome \<Rightarrow> handler list \<Rightarrow> pstate \<Rightarrow> outcome \<times> pstate" where
  "then_chain p [] s = (p, s)"
| "then_chain p (h # hs) s = (case then_js p h s of (p', s') \<Rightarrow> then_chain p' hs s')"

text \<open>\<^verbatim>\<open>Number(v)\<close> and \<^verbatim>\<open>v / c\<close> for a non-zero constant \<open>c\<close>. The conversion of
  strings and objects is the environment's, and so is the rounding of the quotient: the
  code divides doubles, and \<^verbatim>\<open>100 / 60\<close> is the double next to 5/3, not 5/3.\<close>

definition to_number :: "env \<Rightarrow> jsval \<Rightarrow> jsval" where
  "to_number e v =
     (case v of
        JNum r \<Rightarrow> JNum r
      | JNaN \<Rightarrow> JNaN
      | JUndefined \<Rightarrow> JNaN
      | JNull \<Rightarrow> JNum 0
      | JBool b \<Rightarrow> JNum (if b then 1 else 0)
      | _ \<Rightarrow> number_of e v)"

definition js_div :: "env \<Rightarrow> jsval \<Rightarrow> rat \<Rightarrow> jsval" where
  "js_div e v c =
     (case to_number e v of JNum r \<Rightarrow> JNum (round_double e (r / c)) | _ \<Rightarrow> JNaN)"

definition seqP :: "unit prog \<Rightarrow> 'a prog \<Rightarrow> 'a prog" where
  "seqP a b = bindP a (\<lambda>_. b)"

definition whenP :: "bool \<Rightarrow> unit prog \<Rightarrow> unit prog" where
  "whenP c a = (if c then a else ret ())"

definition assign :: "(jsval \<Rightarrow> snapshot \<Rightarrow> snapshot) \<Rightarrow> (pstate \<Rightarrow> jsval + jsval) \<Rightarrow> unit prog" where
  "assign f x = bindP (expr x) (\<lambda>v. set_data (f v))"

definition assign_battery ::
  "nat \<Rightarrow> (jsval \<Rightarrow> slot \<Rightarrow> slot) \<Rightarrow> (pstate \<Rightarrow> jsval + jsval) \<Rightarrow> unit prog" where
  "assign_battery i f x = bindP (expr x) (\<lambda>v. set_battery i (f v))"

definition tab :: char where
  "tab = CHR 0x09"

subsection \<open>The handlers of the promise chain, in the order of the source\<close>

text \<open>\<^verbatim>\<open>result.client.NAME({sn: vehicles.result[0].sn})\<close>, as five handlers end.\<close>

definition call_with_sn :: "env \<Rightarrow> jsval \<Rightarrow> string \<Rightarrow> outcome prog" where
  "call_with_sn e result name' =
     bindP (expr (\<lambda>_. get_prop result ''client'')) (\<lambda>c.
     bindP (expr (\<lambda>s. path (vehicles s) [Key ''result'', Idx 0, Key ''sn''])) (\<lambda>sn.
     call_method e c name' (JObj [(''sn'', sn)])))"

definition on_session :: "env \<Rightarrow> handler" where
  "on_session e result =
     bindP (expr (\<lambda>_. get_prop result ''result'')) (\<lambda>tok.
     seqP (log_line (LineWith (tab # ''Session token created: '') tok))
    (seqP (log_line (LineWith (tab # ''Token key created: '') (JStr (key_digest e))))
    (bindP (expr (\<lambda>_. get_prop result ''client'')) (\<lambda>c.
     call_method e c ''getVehicles'' JUndefined))))"

definition on_position :: "jsval \<Rightarrow> handler" where
  "on_position index' vehiclePosResult =
     seqP (assign (\<lambda>v d. d\<lparr>position_latitude := Val v\<rparr>)
             (\<lambda>_. path vehiclePosResult [Key ''result'', Key ''lat'']))
    (seqP (assign (\<lambda>v d. d\<lparr>position_longitude := Val v\<rparr>)
             (\<lambda>_. path vehiclePosResult [Key ''result'', Key ''lng'']))
    (bindP (expr (\<lambda>_. get_prop vehiclePosResult ''client'')) (\<lambda>c.
     ret (Resolved (JObj [(''client'', c), (''index'', index')])))))"

text \<open>
  The body of the loop \<^verbatim>\<open>for (index = 0; index < 1; ++index)\<close>, which runs once: the
  handler it attaches receives the object the enclosing handler built two statements
  earlier, so \<^verbatim>\<open>vehicleIndex\<close> is the \<open>0\<close> stored there and \<^verbatim>\<open>vehicleResult.index\<close>
  is \<open>1\<close> after the increment.
\<close>

definition select_vehicle :: "env \<Rightarrow> jsval \<Rightarrow> nat \<Rightarrow> handler" where
  "select_vehicle e result vehicleIndex vehicleResult =
     seqP (assign (\<lambda>v d. d\<lparr>vehicle_sn := Val v\<rparr>)
             (\<lambda>s. path (vehicles s) [Key ''result'', Idx vehicleIndex, Key ''sn'']))
    (seqP (assign (\<lambda>v d. d\<lparr>vehicle_type := Val v\<rparr>)
             (\<lambda>s. path (vehicles s) [Key ''result'', Idx vehicleIndex, Key ''type'']))
    (seqP (assign (\<lambda>v d. d\<lparr>vehicle_name := Val v\<rparr>)
             (\<lambda>s. path (vehicles s) [Key ''result'', Idx vehicleIndex, Key ''name'']))
    (bindP (expr (\<lambda>_. get_prop result ''client'')) (\<lambda>c.
     bindP (expr (\<lambda>s. path (vehicles s) [Key ''result'', Idx vehicleIndex, Key ''sn''])) (\<lambda>sn.
     bindP (call_method e c ''getVehiclePos'' (JObj [(''sn'', sn)])) (\<lambda>p.
     then_p p (on_position (JNum (of_nat (vehicleIndex + 1))))))))))"

definition on_vehicles :: "env \<Rightarrow> handler" where
  "on_vehicles e result =
     bindP (expr (\<lambda>_. get_prop result ''client'')) (\<lambda>c0.
     seqP (\<lambda>s. (Inr (), s\<lparr>vehicles := result\<rparr>))
    (bindP (expr (\<lambda>s. get_prop (vehicles s) ''length'')) (\<lambda>len.
     if len = JNum 0
     then seqP (log_line (Line (tab # ''No vehicles found.'')))
            (ret (Rejected (JError ''Error'' ''Aborted.'')))
     else
       bindP (then_p (Resolved (JObj [(''client'', c0), (''index'', JNum 0)]))
                (select_vehicle e result 0)) (\<lambda>nextPromise.
       then_p nextPromise (\<lambda>_. call_with_sn e result ''getBatteryInfo'')))))"

definition on_batteryInfo :: "env \<Rightarrow> handler" where
  "on_batteryInfo e result =
     bindP (expr (\<lambda>_. path result [Key ''result'', Key ''batteries''])) (\<lambda>batteries.
     seqP (bindP (expr (\<lambda>_. get_prop batteries ''compartmentA'')) (\<lambda>cA.
             whenP (typeof cA = ''object'')
               (seqP (assign_battery 0 (\<lambda>v b. b\<lparr>bms := Val v\<rparr>)
                        (\<lambda>_. path batteries [Key ''compartmentA'', Key ''bmsId'']))
                     (assign_battery 0 (\<lambda>v b. b\<lparr>capacity := Val v\<rparr>)
                        (\<lambda>_. path batteries [Key ''compartmentA'', Key ''batteryCharging''])))))
    (seqP (bindP (expr (\<lambda>_. get_prop batteries ''compartmentB'')) (\<lambda>cB.
             whenP (typeof cB = ''object'')
               (seqP (assign_battery 1 (\<lambda>v b. b\<lparr>bms := Val v\<rparr>)
                        (\<lambda>_. path batteries [Key ''compartmentA'', Key ''bmsId'']))
                     (assign_battery 1 (\<lambda>v b. b\<lparr>capacity := Val v\<rparr>)
                        (\<lambda>_. path batteries [Key ''compartmentA'', Key ''batteryCharging''])))))
    (seqP (assign (\<lambda>v d. d\<lparr>battery_estimated_milage := Val v\<rparr>)
             (\<lambda>_. path result [Key ''result'', Key ''estimatedMileage'']))
          (call_with_sn e result ''getBatteryHealth''))))"

definition on_batteryHealth :: "env \<Rightarrow> handler" where
  "on_batteryHealth e result =
     bindP (expr (\<lambda>_. path result [Key ''result'', Key ''batteries''])) (\<lambda>batteries.
     seqP (bindP (expr (\<lambda>_. get_prop batteries ''compartmentA'')) (\<lambda>cA.
             whenP (typeof cA = ''object'')
               (assign_battery 0 (\<lambda>v b. b\<lparr>grade := Val (to_number e v)\<rparr>)
                  (\<lambda>_. path batteries [Key ''compartmentA'', Key ''gradeBattery'']))))
    (seqP (bindP (expr (\<lambda>_. get_prop batteries ''compartmentB'')) (\<lambda>cB.
             whenP (typeof cB = ''object'')
               (assign_battery 1 (\<lambda>v b. b\<lparr>grade := Val (to_number e v)\<rparr>)
                  (\<lambda>_. path batteries [Key ''compartmentA'', Key ''gradeBattery'']))))
          (call_with_sn e result ''getMotorInfo'')))"

definition on_motorInfo :: "env \<Rightarrow> handler" where
  "on_motorInfo e result = call_with_sn e result ''getOverallTally''"

definition on_overallTally :: "env \<Rightarrow> handler" where
  "on_overallTally e result =
     seqP (assign (\<lambda>v d. d\<lparr>total_mileage := Val v\<rparr>)
             (\<lambda>_. path result [Key ''result'', Key ''totalMileage'']))
          (call_with_sn e result ''getFirmwareVersion'')"

definition on_firmwareVersion :: "env \<Rightarrow> handler" where
  "on_firmwareVersion e result =
     seqP (assign (\<lambda>v d. d\<lparr>firmware_version := Val v\<rparr>)
             (\<lambda>_. path result [Key ''result'', Key ''version'']))
    (bindP (expr (\<lambda>_. get_prop result ''client'')) (\<lambda>c.
     bindP (expr (\<lambda>s. path (vehicles s) [Key ''result'', Idx 0, Key ''sn''])) (\<lambda>sn.
     call_method e c ''getTracks''
       (JObj [(''sn'', sn), (''index'', JNum 0), (''pageSize'', JNum 1)]))))"

definition on_tracks :: "env \<Rightarrow> handler" where
  "on_tracks e result =
     bindP (expr (\<lambda>_. path result [Key ''result'', Key ''length''])) (\<lambda>len.
     if len = JNum 0
     then seqP (log_line (Line (tab # ''No tracks available.''))) (ret (Resolved JUndefined))
     else
       bindP (expr (\<lambda>_. path result [Key ''result'', Key ''items'', Idx 0])) (\<lambda>track.
       bindP (expr (\<lambda>_. get_prop track ''startTime'')) (\<lambda>startTime.
       bindP (expr (\<lambda>_. get_prop track ''endTime'')) (\<lambda>endTime.
       seqP (assign (\<lambda>v d. d\<lparr>track_id := Val v\<rparr>) (\<lambda>_. get_prop track ''trackId''))
      (seqP (set_data (\<lambda>d. d\<lparr>track_start_time := Val (JStr (date_toString e startTime))\<rparr>))
      (seqP (set_data (\<lambda>d. d\<lparr>track_end_time := Val (JStr (date_toString e endTime))\<rparr>))
      (seqP (assign (\<lambda>v d. d\<lparr>track_distance := Val (js_div e v 1000)\<rparr>)
               (\<lambda>_. get_prop track ''distance''))
      (seqP (assign (\<lambda>v d. d\<lparr>track_average_speed := Val v\<rparr>)
               (\<lambda>_. get_prop track ''avespeed''))
      (seqP (assign (\<lambda>v d. d\<lparr>track_riding_time := Val (js_div e v 60)\<rparr>)
               (\<lambda>_. get_prop track ''ridingtime''))
            (ret (Resolved JUndefined)))))))))))"

definition on_error :: handler where
  "on_error error =
     seqP
       (if typeof error = ''object'' then
          seqP (bindP (expr (\<lambda>_. get_prop error ''debug'')) (\<lambda>debug.
                  whenP (typeof debug = ''object'')
                    (bindP (expr (\<lambda>_. get_prop debug ''date'')) (\<lambda>date.
                     bindP (expr (\<lambda>_. get_prop debug ''funcName'')) (\<lambda>funcName.
                     log_line (DebugLine date funcName))))))
         (bindP (expr (\<lambda>_. get_prop error ''error'')) (\<lambda>err.
            if typeof err = ''object'' then
              (if err = JNull then log_line (Line ''Error: Unknown'')
               else bindP (expr (\<lambda>_. get_prop err ''message'')) (\<lambda>message.
                    if typeof message = ''string'' then log_line (LineWith ''Error: '' message)
                    else seqP (log_line (Line ''Error: '')) (log_line (Pretty err))))
            else
              bindP (expr (\<lambda>_. get_prop error ''message'')) (\<lambda>message.
              if typeof message = ''string''
              then seqP (log_line (Line ''Error:'')) (log_line (Plain message))
              else seqP (log_line (Line ''Internal error: Unsupported error''))
                        (log_line (Pretty error)))))
        else log_line (Line ''Error: Unknown''))
       (ret (Resolved JUndefined))"

subsection \<open>The chain, its catch and the route\<close>

definition catch_js :: "outcome \<Rightarrow> handler \<Rightarrow> pstate \<Rightarrow> outcome \<times> pstate" where
  "catch_js p h s =
     (case p of
        Rejected x \<Rightarrow> (case h x s of (Inl y, s') \<Rightarrow> (Rejected y, s') | (Inr p', s') \<Rightarrow> (p', s'))
      | _ \<Rightarrow> (p, s))"

text \<open>
  The chain up to, but not including, \<^verbatim>\<open>.catch\<close>: how the aggregation itself ends, and
  the state it leaves. \<open>script\<close> adds the catch handler, which only reports.
\<close>

definition handlers :: "env \<Rightarrow> handler list" where
  "handlers e =
     [on_session e, on_vehicles e, on_batteryInfo e, on_batteryHealth e, on_motorInfo e,
      on_overallTally e, on_firmwareVersion e, on_tracks e]"

definition login_options :: "env \<Rightarrow> jsval" where
  "login_options e =
     JObj [(''account'', API_ACCOUNT e), (''password'', API_PWD e),
           (''countryCode'', API_COUNTRY_CODE e)]"

definition pipeline :: "env \<Rightarrow> pstate \<Rightarrow> outcome \<times> pstate" where
  "pipeline e s =
     (case createSessionToken e (login_options e) (client s) of
        (p, w') \<Rightarrow> then_chain p (handlers e) (s\<lparr>client := w'\<rparr>))"

definition script :: "env \<Rightarrow> pstate \<Rightarrow> outcome \<times> pstate" where
  "script e s = (case pipeline e s of (p, s') \<Rightarrow> catch_js p on_error s')"

text \<open>
  The terminal states of the specification: \<open>Done\<close> when the chain resolved, \<open>Failed\<close>
  with the reason when it was rejected. A chain that neither resolves nor is rejected
  (an uncaught exception) reaches no terminal state.
\<close>

datatype terminal = Done | Failed jsval | Stuck jsval

fun terminal_of :: "outcome \<Rightarrow> terminal" where
  "terminal_of (Resolved v) = Done"
| "terminal_of (Rejected x) = Failed x"
| "terminal_of (Threw x) = Stuck x"
| "terminal_of (Crashed x) = Stuck x"

text \<open>
  \<^verbatim>\<open>key == v\<close> for the string \<open>key\<close>: equality of strings, never equal to
  \<^verbatim>\<open>undefined\<close> or \<^verbatim>\<open>null\<close>, and the environment's conversion for the rest.
\<close>

definition loose_eq :: "env \<Rightarrow> string \<Rightarrow> jsval \<Rightarrow> bool" where
  "loose_eq e k v =
     (case v of
        JStr t \<Rightarrow> k = t
      | JUndefined \<Rightarrow> False
      | JNull \<Rightarrow> False
      | _ \<Rightarrow> loose_eq_other e k v)"

text \<open>
  The handler of \<^verbatim>\<open>GET /api\<close>: \<^verbatim>\<open>if (key == req.body.key) res.send(data)\<close>. It
  either sends the snapshot as it stands, or returns having sent nothing, or throws
  while reading \<^verbatim>\<open>req.body.key\<close>.
\<close>

datatype reply = Sent snapshot | NoReply

definition api_handler :: "env \<Rightarrow> snapshot \<Rightarrow> jsval \<Rightarrow> jsval + reply" where
  "api_handler e d req =
     (case path req [Key ''body'', Key ''key''] of
        Inl x \<Rightarrow> Inl x
      | Inr k \<Rightarrow> Inr (if loose_eq e (key_digest e) k then Sent d else NoReply))"

text \<open>
  The application around the handler: \<^verbatim>\<open>express()\<close> with the one route
  \<^verbatim>\<open>app.get("/api", ...)\<close> and \<^verbatim>\<open>app.listen(port)\<close>, and nothing else; in particular
  no body-parsing middleware is installed. A request that reaches the route comes with
  its headers and the bytes of its body. Express hands the handler a request object on
  which \<^verbatim>\<open>body\<close> is set only by a body parser, so here it is never set, whatever bytes
  were sent. Express calls the handler inside its router: an exception the handler
  throws goes to the default error handler, which answers with status 500; a handler
  that returns without sending leaves the request unanswered.
\<close>

record http_request =
  rq_headers :: "(string \<times> string) list"
  rq_body :: string

definition express_req :: "http_request \<Rightarrow> jsval" where
  "express_req rq =
     JObj [(''method'', JStr ''GET''), (''url'', JStr ''/api''),
           (''headers'', JObj (map (\<lambda>h. (fst h, JStr (snd h))) (rq_headers rq)))]"

datatype http_response = Answered snapshot | Error500 jsval | Unanswered

definition get_api :: "env \<Rightarrow> snapshot \<Rightarrow> http_request \<Rightarrow> http_response" where
  "get_api e d rq =
     (case api_handler e d (express_req rq) of
        Inl x \<Rightarrow> Error500 x
      | Inr (Sent d') \<Rightarrow> Answered d'
      | Inr NoReply \<Rightarrow> Unanswered)"

subsection \<open>A mocked vendor API\<close>

text \<open>
  Environments for running the definitions on concrete inputs: the network answers the
  n-th request with the n-th canned triple, and refuses the connection once they run out.
  The mock rounds nothing: the quotients of the canned values below (1500 / 1000 and
  120 / 60) are doubles.
\<close>

definition canned :: "(jsval \<times> jsval \<times> jsval) list \<Rightarrow> nat \<Rightarrow> reqdata \<Rightarrow> jsval \<times> jsval \<times> jsval" where
  "canned rs n rd = (if n < length rs then rs ! n else (JStr ''ECONNREFUSED'', JUndefined, JUndefined))"

definition mock_env :: "(nat \<Rightarrow> reqdata \<Rightarrow> jsval \<times> jsval \<times> jsval) \<Rightarrow> env" where
  "mock_env net =
     \<lparr>request = net, clock = (9, 5, 7, 40),
      number_of = (\<lambda>v. if v = JStr ''98'' then JNum 98 else if v = JStr ''91'' then JNum 91 else JNaN),
      date_toString = (\<lambda>v. case v of JNum r \<Rightarrow> ''some date'' | _ \<Rightarrow> ''Invalid Date''),
      sha256_hex = (\<lambda>s. ''digest of '' @ s),
      loose_eq_other = (\<lambda>k v. False),
      round_double = (\<lambda>r. r),
      API_KEY = ''secret'', API_ACCOUNT = JStr ''user@example.com'', API_PWD = JStr ''pw'',
      API_COUNTRY_CODE = JStr ''351''\<rparr>"

definition ok :: "jsval \<Rightarrow> jsval \<times> jsval \<times> jsval" where
  "ok body = (JNull, JObj [(''statusCode'', JNum 200)], body)"

definition login_body :: jsval where
  "login_body = JObj [(''status'', JNum 0), (''data'', JObj [(''token'', JStr ''tok123'')])]"

definition one_vehicle :: jsval where
  "one_vehicle = JArr [JObj [(''sn'', JStr ''SN1''), (''type'', JStr ''NGT''), (''name'', JStr ''scooter'')]]"

text \<open>What \<^verbatim>\<open>_makeRequest\<close> resolves with, and the state once a session and the
  vehicle list are there.\<close>

definition resolved_with :: "jsval \<Rightarrow> jsval" where
  "resolved_with body = JObj [(''client'', JClient), (''result'', body)]"

definition session :: pstate where
  "session = \<lparr>client = \<lparr>token = ''tok123'', sent = []\<rparr>, data = data_init,
               vehicles = resolved_with one_vehicle, console = []\<rparr>"

definition battery_info_both :: jsval where
  "battery_info_both =
     JObj [(''batteries'',
            JObj [(''compartmentA'', JObj [(''bmsId'', JStr ''A1''), (''batteryCharging'', JNum 80)]),
                  (''compartmentB'', JObj [(''bmsId'', JStr ''B2''), (''batteryCharging'', JNum 55)])]),
           (''estimatedMileage'', JNum 42)]"

definition battery_health_both :: jsval where
  "battery_health_both =
     JObj [(''batteries'',
            JObj [(''compartmentA'', JObj [(''bmsId'', JStr ''A1''), (''gradeBattery'', JStr ''98'')]),
                  (''compartmentB'', JObj [(''bmsId'', JStr ''B2''), (''gradeBattery'', JStr ''91'')])])]"

definition battery_info_onlyA :: jsval where
  "battery_info_onlyA =
     JObj [(''batteries'',
            JObj [(''compartmentA'', JObj [(''bmsId'', JStr ''A1''), (''batteryCharging'', JNum 80)])]),
           (''estimatedMileage'', JNum 42)]"

definition battery_health_onlyA :: jsval where
  "battery_health_onlyA =
     JObj [(''batteries'',
            JObj [(''compartmentA'', JObj [(''bmsId'', JStr ''A1''), (''gradeBattery'', JStr ''98'')])])]"

definition one_track :: jsval where
  "one_track =
     JObj [(''trackId'', JStr ''T1''), (''startTime'', JNum 1647700000000),
           (''endTime'', JNum 1647700120000), (''distance'', JNum 1500), (''avespeed'', JNum 45),
           (''ridingtime'', JNum 120)]"

definition full_mock :: "(jsval \<times> jsval \<times> jsval) list" where
  "full_mock =
     [ok login_body, ok one_vehicle,
      ok (JObj [(''lat'', JNum 41), (''lng'', JNum (- 8))]),
      ok battery_info_onlyA,
      ok battery_health_onlyA,
      ok (JObj [(''nowSpeed'', JNum 0)]),
      ok (JObj [(''totalMileage'', JNum 1234)]),
      ok (JObj [(''version'', JStr ''TRA03A15'')]),
      ok (JObj [(''items'', JArr [one_track])])]"

section \<open>Properties\<close>

subsection \<open>Reading values\<close>

lemmas prog_defs = ret_def bindP_def expr_def set_data_def set_battery_def log_line_def
  seqP_def whenP_def assign_def assign_battery_def then_p_def

lemma get_prop_eq_Inr:
  "get_prop v k = Inr x \<longleftrightarrow> v \<noteq> JUndefined \<and> v \<noteq> JNull \<and> x = prop_of v k"
  by (cases v) auto

lemma get_prop_eq_Inl:
  "get_prop v k = Inl x \<longleftrightarrow> (v = JUndefined \<or> v = JNull) \<and> x = cannot_read k"
  by (cases v) auto

subsection \<open>The request executor\<close>

lemma priv_makeRequest_issues_one:
  assumes "typeof options = ''object''" "get_prop options ''path'' = Inr (JStr p)"
      and "request e (length (sent w)) (build_reqData w p (prop_of options ''postData'')) =
             (error, response, body)"
  shows "priv_makeRequest e options w =
           priv_makeRequest_callback e error response body
             (w\<lparr>sent := sent w @ [build_reqData w p (prop_of options ''postData'')]\<rparr>)"
  using assms by (simp add: priv_makeRequest_def do_request_def)

lemma callback_resolved_iff:
  "fst (priv_makeRequest_callback e error response body w) = Resolved v \<longleftrightarrow>
     error = JNull \<and> typeof response = ''object'' \<and> response \<noteq> JNull \<and>
     prop_of response ''statusCode'' = JNum 200 \<and>
     typeof body = ''object'' \<and> body \<noteq> JNull \<and>
     \<not> (typeof (prop_of body ''status'') = ''number'' \<and> prop_of body ''status'' \<noteq> JNum 0) \<and>
     v = JObj [(''client'', JClient), (''result'', body)]"
  by (auto simp: priv_makeRequest_callback_def reject_with_def Let_def
        get_prop_eq_Inr get_prop_eq_Inl
      split: sum.splits)

lemma callback_world: "snd (priv_makeRequest_callback e error response body w) = w"
  by (auto simp: priv_makeRequest_callback_def reject_with_def Let_def split: sum.splits)

lemma callback_layers:
  "(error \<noteq> JNull \<longrightarrow>
      fst (priv_makeRequest_callback e error response body w) =
        Rejected (priv_error e error (JStr ''_makeRequest()''))) \<and>
   (error = JNull \<and> typeof response \<noteq> ''object'' \<longrightarrow>
      fst (priv_makeRequest_callback e error response body w) =
        Rejected (priv_error e (JStr ''Unknown error.'') (JStr ''_makeRequest()''))) \<and>
   (error = JNull \<and> typeof response = ''object'' \<and> response \<noteq> JNull \<and>
    typeof (prop_of response ''statusCode'') \<noteq> ''number'' \<longrightarrow>
      fst (priv_makeRequest_callback e error response body w) =
        Rejected (priv_error e (JStr ''Status code is missing.'') (JStr ''_makeRequest()''))) \<and>
   (error = JNull \<and> typeof response = ''object'' \<and> response \<noteq> JNull \<and>
    typeof (prop_of response ''statusCode'') = ''number'' \<and>
    prop_of response ''statusCode'' \<noteq> JNum 200 \<longrightarrow>
      fst (priv_makeRequest_callback e error response body w) =
        Rejected (priv_error e (JStr ''Bad request.'') (JStr ''_makeRequest()''))) \<and>
   (error = JNull \<and> typeof response = ''object'' \<and> response \<noteq> JNull \<and>
    prop_of response ''statusCode'' = JNum 200 \<and> typeof body \<noteq> ''object'' \<longrightarrow>
      fst (priv_makeRequest_callback e error response body w) =
        Rejected (priv_error e (JStr ''No body received.'') (JStr ''_makeRequest()''))) \<and>
   (error = JNull \<and> typeof response = ''object'' \<and> response \<noteq> JNull \<and>
    prop_of response ''statusCode'' = JNum 200 \<and> typeof body = ''object'' \<and> body \<noteq> JNull \<and>
    typeof (prop_of body ''status'') = ''number'' \<and> prop_of body ''status'' \<noteq> JNum 0 \<longrightarrow>
      fst (priv_makeRequest_callback e error response body w) =
        Rejected (priv_error e body (JStr ''_makeRequest()'')) \<and>
      prop_of (priv_error e body (JStr ''_makeRequest()'')) ''error'' = body)"
  by (auto simp: priv_makeRequest_callback_def reject_with_def Let_def priv_error_def
        get_prop_eq_Inr get_prop_eq_Inl
      split: sum.splits)

text \<open>
  Claim C1. \<^verbatim>\<open>_makeRequest\<close>, called with an options object that has a string path,
  issues exactly one request, and on the callback's arguments \<open>(error, response, body)\<close>
  it resolves, with the wrapper around the raw body, if and only if there is no transport
  error, the response is an object whose status code is the number 200, and the body is
  an object without a numeric non-zero \<open>status\<close>. The layers are tested in order: a
  transport error decides the outcome whatever the response and body are, then a missing
  response, then a missing or non-numeric status code, then a status code other than 200
  (each whatever the body is), then a missing body, and last the vendor's own status, in
  which case the error's cause is the body itself.
\<close>

theorem makeRequest_failure_layers:
  assumes "typeof options = ''object''" and "get_prop options ''path'' = Inr (JStr p)"
      and "request e (length (sent w)) (build_reqData w p (prop_of options ''postData'')) =
             (error, response, body)"
  shows
  "(fst (priv_makeRequest e options w) = Resolved v \<longleftrightarrow>
      error = JNull \<and> typeof response = ''object'' \<and> response \<noteq> JNull \<and>
      prop_of response ''statusCode'' = JNum 200 \<and>
      typeof body = ''object'' \<and> body \<noteq> JNull \<and>
      \<not> (typeof (prop_of body ''status'') = ''number'' \<and> prop_of body ''status'' \<noteq> JNum 0) \<and>
      v = JObj [(''client'', JClient), (''result'', body)]) \<and>
   (error \<noteq> JNull \<longrightarrow>
      fst (priv_makeRequest e options w) = Rejected (priv_error e error (JStr ''_makeRequest()''))) \<and>
   (error = JNull \<and> typeof response \<noteq> ''object'' \<longrightarrow>
      fst (priv_makeRequest e options w) =
        Rejected (priv_error e (JStr ''Unknown error.'') (JStr ''_makeRequest()''))) \<and>
   (error = JNull \<and> typeof response = ''object'' \<and> response \<noteq> JNull \<and>
    typeof (prop_of response ''statusCode'') \<noteq> ''number'' \<longrightarrow>
      fst (priv_makeRequest e options w) =
        Rejected (priv_error e (JStr ''Status code is missing.'') (JStr ''_makeRequest()''))) \<and>
   (error = JNull \<and> typeof response = ''object'' \<and> response \<noteq> JNull \<and>
    typeof (prop_of response ''statusCode'') = ''number'' \<and>
    prop_of response ''statusCode'' \<noteq> JNum 200 \<longrightarrow>
      fst (priv_makeRequest e options w) =
        Rejected (priv_error e (JStr ''Bad request.'') (JStr ''_makeRequest()''))) \<and>
   (error = JNull \<and> typeof response = ''object'' \<and> response \<noteq> JNull \<and>
    prop_of response ''statusCode'' = JNum 200 \<and> typeof body \<noteq> ''object'' \<longrightarrow>
      fst (priv_makeRequest e options w) =
        Rejected (priv_error e (JStr ''No body received.'') (JStr ''_makeRequest()''))) \<and>
   (error = JNull \<and> typeof response = ''object'' \<and> response \<noteq> JNull \<and>
    prop_of response ''statusCode'' = JNum 200 \<and> typeof body = ''object'' \<and> body \<noteq> JNull \<and>
    typeof (prop_of body ''status'') = ''number'' \<and> prop_of body ''status'' \<noteq> JNum 0 \<longrightarrow>
      fst (priv_makeRequest e options w) = Rejected (priv_error e body (JStr ''_makeRequest()'')) \<and>
      prop_of (priv_error e body (JStr ''_makeRequest()'')) ''error'' = body) \<and>
   sent (snd (priv_makeRequest e options w)) =
     sent w @ [build_reqData w p (prop_of options ''postData'')]"
  unfolding priv_makeRequest_issues_one [OF assms]
  using callback_layers [of error e response body]
  by (simp add: callback_resolved_iff callback_world)

text \<open>
  The theorem at three concrete exchanges: a success body, a vendor error (the cause is
  the body), and a transport error that comes with a status 500 and a vendor status, where
  the transport error is the one reported.
\<close>

theorem makeRequest_failure_layers_witness:
  "fst (priv_makeRequest
          (mock_env (canned [ok (JObj [(''status'', JNum 0), (''data'', JArr [])])]))
          (JObj [(''path'', JStr ''/motoinfo/list''), (''postData'', JObj [])])
          \<lparr>token = ''tok123'', sent = []\<rparr>)
     = Resolved (JObj [(''client'', JClient),
                       (''result'', JObj [(''status'', JNum 0), (''data'', JArr [])])]) \<and>
   fst (priv_makeRequest
          (mock_env (canned [ok (JObj [(''status'', JNum 1202), (''desc'', JStr ''bad token'')])]))
          (JObj [(''path'', JStr ''/motoinfo/list''), (''postData'', JObj [])])
          \<lparr>token = ''tok123'', sent = []\<rparr>)
     = Rejected (priv_error
                   (mock_env (canned [ok (JObj [(''status'', JNum 1202),
                                                (''desc'', JStr ''bad token'')])]))
                   (JObj [(''status'', JNum 1202), (''desc'', JStr ''bad token'')])
                   (JStr ''_makeRequest()'')) \<and>
   fst (priv_makeRequest
          (mock_env (canned [(JStr ''ETIMEDOUT'', JObj [(''statusCode'', JNum 500)],
                              JObj [(''status'', JNum 7)])]))
          (JObj [(''path'', JStr ''/motoinfo/list''), (''postData'', JObj [])])
          \<lparr>token = ''tok123'', sent = []\<rparr>)
     = Rejected (priv_error
                   (mock_env (canned [(JStr ''ETIMEDOUT'', JObj [(''statusCode'', JNum 500)],
                                       JObj [(''status'', JNum 7)])]))
                   (JStr ''ETIMEDOUT'') (JStr ''_makeRequest()''))"
  using
    makeRequest_failure_layers
      [of "JObj [(''path'', JStr ''/motoinfo/list''), (''postData'', JObj [])]"
          "''/motoinfo/list''"
          "mock_env (canned [ok (JObj [(''status'', JNum 0), (''data'', JArr [])])])"
          "\<lparr>token = ''tok123'', sent = []\<rparr>" JNull "JObj [(''statusCode'', JNum 200)]"
          "JObj [(''status'', JNum 0), (''data'', JArr [])]"
          "JObj [(''client'', JClient),
                 (''result'', JObj [(''status'', JNum 0), (''data'', JArr [])])]"]
    makeRequest_failure_layers
      [of "JObj [(''path'', JStr ''/motoinfo/list''), (''postData'', JObj [])]"
          "''/motoinfo/list''"
          "mock_env (canned [ok (JObj [(''status'', JNum 1202), (''desc'', JStr ''bad token'')])])"
          "\<lparr>token = ''tok123'', sent = []\<rparr>" JNull "JObj [(''statusCode'', JNum 200)]"
          "JObj [(''status'', JNum 1202), (''desc'', JStr ''bad token'')]"]
    makeRequest_failure_layers
      [of "JObj [(''path'', JStr ''/motoinfo/list''), (''postData'', JObj [])]"
          "''/motoinfo/list''"
          "mock_env (canned [(JStr ''ETIMEDOUT'', JObj [(''statusCode'', JNum 500)],
                              JObj [(''status'', JNum 7)])])"
          "\<lparr>token = ''tok123'', sent = []\<rparr>" "JStr ''ETIMEDOUT''"
          "JObj [(''statusCode'', JNum 500)]" "JObj [(''status'', JNum 7)]"]
  by (simp add: mock_env_def canned_def ok_def)

subsection \<open>Authentication\<close>

lemma login_callback_sent:
  "sent (snd (createSessionToken_callback e error response body w)) = sent w"
  by (auto simp: createSessionToken_callback_def reject_with_def Let_def
      split: sum.splits jsval.splits)

text \<open>
  Claim C8, as stated, fails: empty strings pass the \<^verbatim>\<open>typeof\<close> tests of
  \<^verbatim>\<open>createSessionToken\<close>. With account, password and country code all empty the
  login request is issued, and a mocked vendor that accepts it yields a session.
\<close>

theorem empty_credentials_reach_network:
  "createSessionToken (mock_env (canned [ok login_body]))
     (JObj [(''account'', JStr []), (''password'', JStr []), (''countryCode'', JStr [])])
     \<lparr>token = [], sent = []\<rparr>
   = (Resolved (resolved_with (JStr ''tok123'')),
      \<lparr>token = ''tok123'',
       sent = [\<lparr>http_method = ''POST'', url = ''https://account.niu.com/appv2/login'',
                headers = [],
                form = Some (JObj [(''account'', JStr []), (''password'', JStr []),
                                   (''countryCode'', JStr [])]),
                json = True\<rparr>]\<rparr>)"
  by code_simp

text \<open>
  Claim C8, amended. \<^verbatim>\<open>createSessionToken\<close> requires the options to be of type object
  and account, password and country code to be strings; the empty string is a string.
  When the options are not an object, or they are one and the account, the password or
  the country code (tested in this order) is not a string, it rejects with the message
  naming the first missing parameter, stamped \<^verbatim>\<open>createSessionToken()\<close>, and the state
  is returned as it was: no request has been issued. When all three are strings, exactly
  one request, the login, is issued.
\<close>

theorem createSessionToken_validation:
  "(typeof options \<noteq> ''object'' \<longrightarrow>
      createSessionToken e options w =
        (Rejected (priv_error e (JStr ''Options is missing.'') (JStr ''createSessionToken()'')),
         w)) \<and>
   (typeof options = ''object'' \<and> options \<noteq> JNull \<and>
    typeof (prop_of options ''account'') \<noteq> ''string'' \<longrightarrow>
      createSessionToken e options w =
        (Rejected (priv_error e (JStr ''Account is missing.'') (JStr ''createSessionToken()'')),
         w)) \<and>
   (typeof options = ''object'' \<and> options \<noteq> JNull \<and>
    typeof (prop_of options ''account'') = ''string'' \<and>
    typeof (prop_of options ''password'') \<noteq> ''string'' \<longrightarrow>
      createSessionToken e options w =
        (Rejected (priv_error e (JStr ''Password is missing.'') (JStr ''createSessionToken()'')),
         w)) \<and>
   (typeof options = ''object'' \<and> options \<noteq> JNull \<and>
    typeof (prop_of options ''account'') = ''string'' \<and>
    typeof (prop_of options ''password'') = ''string'' \<and>
    typeof (prop_of options ''countryCode'') \<noteq> ''string'' \<longrightarrow>
      createSessionToken e options w =
        (Rejected (priv_error e (JStr ''Country code is missing.'')
                     (JStr ''createSessionToken()'')), w)) \<and>
   (typeof options = ''object'' \<and> options \<noteq> JNull \<and>
    typeof (prop_of options ''account'') = ''string'' \<and>
    typeof (prop_of options ''password'') = ''string'' \<and>
    typeof (prop_of options ''countryCode'') = ''string'' \<longrightarrow>
      sent (snd (createSessionToken e options w)) = sent w @ [login_request options])"
  by (auto simp: createSessionToken_def reject_with_def Let_def get_prop_eq_Inr get_prop_eq_Inl
        do_request_def login_callback_sent
      split: sum.splits prod.splits)

text \<open>The theorem where the options are absent, and where only the password is.\<close>

theorem createSessionToken_validation_witness:
  "createSessionToken (mock_env (canned [ok login_body])) JUndefined \<lparr>token = [], sent = []\<rparr> =
     (Rejected (priv_error (mock_env (canned [ok login_body])) (JStr ''Options is missing.'')
                  (JStr ''createSessionToken()'')),
      \<lparr>token = [], sent = []\<rparr>) \<and>
   createSessionToken (mock_env (canned [ok login_body]))
     (JObj [(''account'', JStr ''user@example.com''), (''countryCode'', JStr ''351'')])
     \<lparr>token = [], sent = []\<rparr> =
     (Rejected (priv_error (mock_env (canned [ok login_body])) (JStr ''Password is missing.'')
                  (JStr ''createSessionToken()'')),
      \<lparr>token = [], sent = []\<rparr>)"
  using
    createSessionToken_validation
      [of JUndefined "mock_env (canned [ok login_body])" "\<lparr>token = [], sent = []\<rparr>"]
    createSessionToken_validation
      [of "JObj [(''account'', JStr ''user@example.com''), (''countryCode'', JStr ''351'')]"
          "mock_env (canned [ok login_body])" "\<lparr>token = [], sent = []\<rparr>"]
  by simp

subsection \<open>The session check of the accessors\<close>

text \<open>
  Claim C6, as stated, fails: \<^verbatim>\<open>_makeRequest\<close> does not look at the token. Called
  with the empty token it issues the request, with an empty \<^verbatim>\<open>token\<close> header, and
  resolves when the vendor answers.
\<close>

theorem makeRequest_without_session:
  "token \<lparr>token = [], sent = []\<rparr> = [] \<and>
   priv_makeRequest (mock_env (canned [ok one_vehicle]))
      (JObj [(''path'', JStr ''/motoinfo/list''), (''postData'', JObj [])])
      \<lparr>token = [], sent = []\<rparr>
    = (Resolved (resolved_with one_vehicle),
       \<lparr>token = [],
        sent = [\<lparr>http_method = ''POST'', url = ''https://app-api.niu.com/motoinfo/list'',
                 headers = [(''accept-language'', ''en-US''), (''token'', [])],
                 form = Some (JObj []), json = True\<rparr>]\<rparr>)"
  by code_simp

text \<open>
  Claim C6, amended. The session check is made by each endpoint accessor, before it
  looks at its options and before it hands anything to \<^verbatim>\<open>_makeRequest\<close>: with the
  empty token every one of the seven accessors rejects with
  \<^verbatim>\<open>No valid token available.\<close> and returns the state as it was, so no request has
  been issued.
\<close>

theorem accessors_need_session:
  assumes "token w = []"
  shows
  "(\<exists>f. getVehicles e w =
          (Rejected (priv_error e (JStr ''No valid token available.'') f), w)) \<and>
   (\<exists>f. getBatteryInfo e options w =
          (Rejected (priv_error e (JStr ''No valid token available.'') f), w)) \<and>
   (\<exists>f. getBatteryHealth e options w =
          (Rejected (priv_error e (JStr ''No valid token available.'') f), w)) \<and>
   (\<exists>f. getMotorInfo e options w =
          (Rejected (priv_error e (JStr ''No valid token available.'') f), w)) \<and>
   (\<exists>f. getOverallTally e options w =
          (Rejected (priv_error e (JStr ''No valid token available.'') f), w)) \<and>
   (\<exists>f. getTracks e options w =
          (Rejected (priv_error e (JStr ''No valid token available.'') f), w)) \<and>
   (\<exists>f. getTrackDetail e options w =
          (Rejected (priv_error e (JStr ''No valid token available.'') f), w))"
  using assms
  by (auto simp: getVehicles_def getBatteryInfo_def getBatteryHealth_def getMotorInfo_def
        getOverallTally_def getTracks_def getTrackDetail_def reject_with_def)

theorem accessors_need_session_witness:
  "token \<lparr>token = [], sent = []\<rparr> = [] \<and>
   (\<exists>f. getTracks (mock_env (canned [ok (JObj [])]))
           (JObj [(''sn'', JStr ''SN1''), (''index'', JNum 0), (''pageSize'', JNum 1)])
           \<lparr>token = [], sent = []\<rparr> =
          (Rejected (priv_error (mock_env (canned [ok (JObj [])]))
                       (JStr ''No valid token available.'') f),
           \<lparr>token = [], sent = []\<rparr>))"
proof -
  have h: "token \<lparr>token = [], sent = []\<rparr> = []" by simp
  show ?thesis
    using h accessors_need_session [OF h, of "mock_env (canned [ok (JObj [])])"
        "JObj [(''sn'', JStr ''SN1''), (''index'', JNum 0), (''pageSize'', JNum 1)]"]
    by blast
qed

text \<open>
  Claim C9 (the code departs from it). \<^verbatim>\<open>getBatteryHealth\<close> sets its
  \<^verbatim>\<open>funcName\<close> to \<^verbatim>\<open>getBatteryInfo()\<close>: its missing-session and validation errors
  carry the name of another accessor, and with the empty token its result cannot be told
  from that of \<^verbatim>\<open>getBatteryInfo\<close>.
\<close>

theorem getBatteryHealth_funcName:
  "getBatteryHealth e options (w\<lparr>token := []\<rparr>) =
     (Rejected (priv_error e (JStr ''No valid token available.'') (JStr ''getBatteryInfo()'')),
      w\<lparr>token := []\<rparr>) \<and>
   getBatteryHealth e (JObj []) (w\<lparr>token := ''tok123''\<rparr>) =
     (Rejected (priv_error e (JStr ''Vehicle serial number is missing.'')
                  (JStr ''getBatteryInfo()'')),
      w\<lparr>token := ''tok123''\<rparr>) \<and>
   path (priv_error e (JStr ''No valid token available.'') (JStr ''getBatteryInfo()''))
     [Key ''debug'', Key ''funcName''] = Inr (JStr ''getBatteryInfo()'') \<and>
   getBatteryHealth e options (w\<lparr>token := []\<rparr>) = getBatteryInfo e options (w\<lparr>token := []\<rparr>)"
  by (simp add: getBatteryHealth_def getBatteryInfo_def reject_with_def priv_error_def)

subsection \<open>The promise chain\<close>

lemma then_js_not_resolved: "(\<And>v. p \<noteq> Resolved v) \<Longrightarrow> then_js p h s = (p, s)"
  by (cases p) (auto simp: then_js_def)

lemma then_chain_not_resolved: "(\<And>v. p \<noteq> Resolved v) \<Longrightarrow> then_chain p hs s = (p, s)"
  by (induction hs arbitrary: s) (simp_all add: then_js_not_resolved)

lemma call_method_data: "data (snd (call_method e c n a s)) = data s"
  by (auto simp: call_method_def split: jsval.splits option.splits prod.splits outcome.splits)





lemma no_getVehiclePos: "map_of Client_prototype ''getVehiclePos'' = None"
  by (simp add: Client_prototype_def)

lemma no_getFirmwareVersion: "map_of Client_prototype ''getFirmwareVersion'' = None"
  by (simp add: Client_prototype_def)

lemma call_getVehiclePos:
  "call_method e JClient ''getVehiclePos'' a s = (Inl (not_a_function ''getVehiclePos''), s)"
  by (simp add: call_method_def no_getVehiclePos)

lemma select_vehicle_throws:
  "\<exists>x s'. select_vehicle e (JObj [(''client'', JClient), (''result'', body)]) i vr s = (Inl x, s')"
  by (auto simp: select_vehicle_def prog_defs call_getVehiclePos split: sum.splits)

lemma on_vehicles_rejected:
  "\<exists>x s'. then_js (Resolved (JObj [(''client'', JClient), (''result'', body)])) (on_vehicles e) s =
            (Rejected x, s')"
proof -
  let ?r = "JObj [(''client'', JClient), (''result'', body)]"
  obtain x s' where sv:
    "select_vehicle e ?r 0 (JObj [(''client'', JClient), (''index'', JNum 0)])
       (s\<lparr>vehicles := ?r\<rparr>) = (Inl x, s')"
    using select_vehicle_throws by blast
  show ?thesis
    by (simp add: on_vehicles_def prog_defs then_js_def sv)
qed

lemma makeRequest_callback_resolved:
  "priv_makeRequest_callback e er rs b w = (Resolved v, w') \<Longrightarrow>
     v = JObj [(''client'', JClient), (''result'', b)]"
  by (auto simp: priv_makeRequest_callback_def reject_with_def Let_def
      split: sum.splits if_splits)

lemma makeRequest_resolved:
  "priv_makeRequest e opts w = (Resolved v, w') \<Longrightarrow>
     \<exists>b. v = JObj [(''client'', JClient), (''result'', b)]"
  by (auto simp: priv_makeRequest_def reject_with_def do_request_def Let_def
      split: sum.splits if_splits jsval.splits prod.splits
      dest: makeRequest_callback_resolved)

lemma getVehicles_resolved:
  "getVehicles e w = (Resolved v, w') \<Longrightarrow> \<exists>b. v = JObj [(''client'', JClient), (''result'', b)]"
  by (auto simp: getVehicles_def reject_with_def Let_def split: if_splits
      dest: makeRequest_resolved)

lemma createSessionToken_resolved:
  "createSessionToken e opts w = (Resolved v, w') \<Longrightarrow>
     \<exists>t. v = JObj [(''client'', JClient), (''result'', t)]"
  by (auto simp: createSessionToken_def createSessionToken_callback_def reject_with_def
        do_request_def Let_def
      split: sum.splits if_splits jsval.splits prod.splits)

lemma on_session_resolved:
  "then_js (Resolved (JObj [(''client'', JClient), (''result'', t)])) (on_session e) s =
     (Resolved v, s') \<Longrightarrow> \<exists>b. v = JObj [(''client'', JClient), (''result'', b)]"
  by (auto simp: on_session_def prog_defs then_js_def call_method_def Client_prototype_def
      split: sum.splits prod.splits outcome.splits dest: getVehicles_resolved)

lemma chain_after_vehicles:
  "\<exists>x s'. then_chain (Resolved (JObj [(''client'', JClient), (''result'', b)]))
            (on_vehicles e # hs) s = (Rejected x, s')"
proof -
  obtain x s' where
    "then_js (Resolved (JObj [(''client'', JClient), (''result'', b)])) (on_vehicles e) s =
       (Rejected x, s')"
    using on_vehicles_rejected by blast
  then show ?thesis by (simp add: then_chain_not_resolved)
qed

lemma chain_after_session:
  "fst (then_chain (Resolved (JObj [(''client'', JClient), (''result'', t)]))
          (on_session e # on_vehicles e # hs) s) \<noteq> Resolved v"
proof -
  obtain p1 s1 where st:
    "then_js (Resolved (JObj [(''client'', JClient), (''result'', t)])) (on_session e) s = (p1, s1)"
    by (cases "then_js (Resolved (JObj [(''client'', JClient), (''result'', t)])) (on_session e) s")
       auto
  show ?thesis
  proof (cases "\<exists>u. p1 = Resolved u")
    case True
    then obtain u where u: "p1 = Resolved u" by blast
    with st obtain b where "u = JObj [(''client'', JClient), (''result'', b)]"
      using on_session_resolved by blast
    with u st show ?thesis
      using chain_after_vehicles [of b e hs s1] by auto
  next
    case False
    then have "then_chain p1 (on_vehicles e # hs) s1 = (p1, s1)"
      by (intro then_chain_not_resolved) auto
    with st False show ?thesis by auto
  qed
qed

lemma pipeline_never_resolves: "fst (pipeline e s) \<noteq> Resolved v"
proof -
  obtain p w' where cs: "createSessionToken e (login_options e) (client s) = (p, w')"
    by (cases "createSessionToken e (login_options e) (client s)") auto
  show ?thesis
  proof (cases "\<exists>u. p = Resolved u")
    case True
    then obtain u where u: "p = Resolved u" by blast
    with cs obtain t where "u = JObj [(''client'', JClient), (''result'', t)]"
      using createSessionToken_resolved by blast
    with u cs show ?thesis
      using chain_after_session [of t e _ "s\<lparr>client := w'\<rparr>" v]
      by (simp add: pipeline_def handlers_def)
  next
    case False
    then have "then_chain p (handlers e) (s\<lparr>client := w'\<rparr>) = (p, s\<lparr>client := w'\<rparr>)"
      by (intro then_chain_not_resolved) auto
    with cs False show ?thesis by (auto simp: pipeline_def)
  qed
qed

text \<open>
  Claim C3 (the code departs from it). The connector defines neither
  \<^verbatim>\<open>getVehiclePos\<close> nor \<^verbatim>\<open>getFirmwareVersion\<close>, which the script calls. So no run
  ends \<open>Done\<close>, whatever the vendor answers; and against a mock with a canned success
  body for every step the run issues the login and the vehicle list, writes the vehicle
  fields, and ends \<open>Failed\<close> where it calls \<^verbatim>\<open>getVehiclePos\<close>.
\<close>

theorem mocked_run_stops_at_position:
  "terminal_of (fst (pipeline e s)) \<noteq> Done \<and>
   map_of Client_prototype ''getVehiclePos'' = None \<and>
   map_of Client_prototype ''getFirmwareVersion'' = None \<and>
   terminal_of (fst (pipeline (mock_env (canned full_mock)) state_init)) =
     Failed (not_a_function ''getVehiclePos'') \<and>
   map url (sent (client (snd (pipeline (mock_env (canned full_mock)) state_init)))) =
     [''https://account.niu.com/appv2/login'', ''https://app-api.niu.com/motoinfo/list'']"
proof -
  have "terminal_of (fst (pipeline e s)) \<noteq> Done"
    using pipeline_never_resolves [of e s] by (cases "fst (pipeline e s)") auto
  moreover have
    "terminal_of (fst (pipeline (mock_env (canned full_mock)) state_init)) =
       Failed (not_a_function ''getVehiclePos'')"
    by code_simp
  moreover have
    "map url (sent (client (snd (pipeline (mock_env (canned full_mock)) state_init)))) =
       [''https://account.niu.com/appv2/login'', ''https://app-api.niu.com/motoinfo/list'']"
    by code_simp
  ultimately show ?thesis
    by (simp add: no_getVehiclePos no_getFirmwareVersion)
qed

text \<open>
  Claim C5 (the code departs from it). The empty-list test reads \<^verbatim>\<open>length\<close> of the
  promise result \<^verbatim>\<open>{client, result}\<close>, which has none, instead of the list in its
  \<^verbatim>\<open>result\<close>; \<^verbatim>\<open>0 === undefined\<close> is false, so the test never fires. With an empty
  vehicle list the run goes on to select vehicle 0 and ends \<open>Failed\<close> with the
  \<^verbatim>\<open>TypeError\<close> of reading \<^verbatim>\<open>sn\<close> of \<^verbatim>\<open>undefined\<close>; \<^verbatim>\<open>No vehicles found.\<close>
  is never logged. The snapshot is untouched.
\<close>

theorem empty_vehicle_list_run:
  "terminal_of (fst (pipeline (mock_env (canned [ok login_body, ok (JArr [])])) state_init)) =
     Failed (cannot_read ''sn'') \<and>
   console (snd (script (mock_env (canned [ok login_body, ok (JArr [])])) state_init)) =
     [LineWith (tab # ''Session token created: '') (JStr ''tok123''),
      LineWith (tab # ''Token key created: '') (JStr ''digest of secret''),
      Line ''Error:'',
      Plain (JStr ''Cannot read property sn of undefined or null'')] \<and>
   data (snd (pipeline (mock_env (canned [ok login_body, ok (JArr [])])) state_init)) =
     data_init \<and>
   get_prop (resolved_with (JArr [])) ''length'' = Inr JUndefined"
  by code_simp

subsection \<open>Folding the responses into the snapshot\<close>

lemma call_with_sn_data: "data (snd (call_with_sn e r n s)) = data s"
  using call_method_data [of e _ n _ s]
  by (auto simp: call_with_sn_def prog_defs split: sum.splits prod.splits)

lemma get_prop_obj: "typeof v = ''object'' \<Longrightarrow> v \<noteq> JNull \<Longrightarrow> get_prop v k = Inr (prop_of v k)"
  by (cases v) auto

lemma then_js_snd: "snd (then_js (Resolved v) h s) = snd (h v s)"
  by (auto simp: then_js_def split: sum.splits prod.splits)

text \<open>
  Whatever the two compartments hold: when both are objects, the battery-info fold gives
  slot 1 the very values it gives slot 0, those of compartment A.
\<close>

lemma slot1_repeats_compartmentA:
  assumes "typeof A = ''object''" "A \<noteq> JNull" "typeof B = ''object''"
      and "battery_batteries (data s) = [b0, b1]"
  shows "battery_batteries (data (snd (then_js
           (Resolved (resolved_with
              (JObj [(''batteries'', JObj [(''compartmentA'', A), (''compartmentB'', B)]),
                     (''estimatedMileage'', m)])))
           (on_batteryInfo e) s))) =
         [b0\<lparr>bms := Val (prop_of A ''bmsId''), capacity := Val (prop_of A ''batteryCharging'')\<rparr>,
          b1\<lparr>bms := Val (prop_of A ''bmsId''), capacity := Val (prop_of A ''batteryCharging'')\<rparr>]"
proof -
  let ?s' = "s\<lparr>data := (data s)\<lparr>battery_batteries :=
         [b0\<lparr>bms := Val (prop_of A ''bmsId''), capacity := Val (prop_of A ''batteryCharging'')\<rparr>,
          b1\<lparr>bms := Val (prop_of A ''bmsId''), capacity := Val (prop_of A ''batteryCharging'')\<rparr>],
          battery_estimated_milage := Val m\<rparr>\<rparr>"
  have "on_batteryInfo e (resolved_with
              (JObj [(''batteries'', JObj [(''compartmentA'', A), (''compartmentB'', B)]),
                     (''estimatedMileage'', m)])) s
        = call_with_sn e (resolved_with
              (JObj [(''batteries'', JObj [(''compartmentA'', A), (''compartmentB'', B)]),
                     (''estimatedMileage'', m)])) ''getBatteryHealth'' ?s'"
    using assms
    by (simp add: on_batteryInfo_def prog_defs resolved_with_def get_prop_obj Let_def)
  then have "data (snd (on_batteryInfo e (resolved_with
              (JObj [(''batteries'', JObj [(''compartmentA'', A), (''compartmentB'', B)]),
                     (''estimatedMileage'', m)])) s)) = data ?s'"
    by (simp add: call_with_sn_data)
  then show ?thesis
    by (simp add: then_js_snd)
qed

text \<open>
  Claim C4 (the code departs from it). Both folds read compartment A where they fill
  slot 1: with both compartments present, slot 1 holds A's \<^verbatim>\<open>bmsId\<close>, A's charge and
  A's grade, not B's.
\<close>

theorem compartmentB_takes_compartmentA:
  "battery_batteries (data (snd (then_js (Resolved (resolved_with battery_info_both))
      (on_batteryInfo (mock_env (canned [ok battery_health_both]))) session))) =
     [\<lparr>bms = Val (JStr ''A1''), capacity = Val (JNum 80), grade = Ctor ''Number''\<rparr>,
      \<lparr>bms = Val (JStr ''A1''), capacity = Val (JNum 80), grade = Ctor ''Number''\<rparr>] \<and>
   path battery_info_both [Key ''batteries'', Key ''compartmentB''] =
     Inr (JObj [(''bmsId'', JStr ''B2''), (''batteryCharging'', JNum 55)]) \<and>
   map grade (battery_batteries (data (snd (then_js (Resolved (resolved_with battery_health_both))
      (on_batteryHealth (mock_env (canned [ok (JObj [])]))) session)))) =
     [Val (JNum 98), Val (JNum 98)] \<and>
   path battery_health_both [Key ''batteries'', Key ''compartmentB'', Key ''gradeBattery''] =
     Inr (JStr ''91'')"
  by code_simp

text \<open>With compartment A alone, each fold fills slot 0 and leaves slot 1 as it was.\<close>

lemma only_compartmentA_fills_slot0:
  "battery_batteries (data (snd (then_js (Resolved (resolved_with battery_info_onlyA))
      (on_batteryInfo (mock_env (canned [ok battery_health_onlyA]))) session))) =
     [\<lparr>bms = Val (JStr ''A1''), capacity = Val (JNum 80), grade = Ctor ''Number''\<rparr>,
      empty_slot] \<and>
   battery_batteries (data (snd (then_js (Resolved (resolved_with battery_health_onlyA))
      (on_batteryHealth (mock_env (canned [ok (JObj [])]))) session))) =
     [\<lparr>bms = Ctor ''String'', capacity = Ctor ''Number'', grade = Val (JNum 98)\<rparr>,
      empty_slot]"
  by code_simp

text \<open>
  Claim C7 (the code departs from it). The handler tests \<^verbatim>\<open>result.result.length\<close>
  but takes the track from \<^verbatim>\<open>result.result.items[0]\<close>. A page whose \<^verbatim>\<open>items\<close> is
  empty has no \<^verbatim>\<open>length\<close>, so the handler goes on and throws reading
  \<^verbatim>\<open>startTime\<close> of \<^verbatim>\<open>undefined\<close>: the chain is rejected. (A page that is itself
  an array passes the test when empty, and then throws when it is not.)
\<close>

theorem empty_track_page_throws:
  "then_js (Resolved (resolved_with (JObj [(''items'', JArr [])])))
     (on_tracks (mock_env (canned []))) session =
     (Rejected (cannot_read ''startTime''), session) \<and>
   then_js (Resolved (resolved_with (JArr [one_track])))
     (on_tracks (mock_env (canned []))) session =
     (Rejected (cannot_read ''0''), session)"
  by code_simp

text \<open>
  The other half of C7 holds of the handler: one item with distance 1500 and riding time
  120 is stored as 3/2 and 2, and the two timestamps as the strings \<^verbatim>\<open>Date\<close> renders.
  Both divisions are exact in IEEE doubles as well.
\<close>

lemma one_track_is_converted:
  "then_js (Resolved (resolved_with (JObj [(''items'', JArr [one_track])])))
     (on_tracks (mock_env (canned []))) session =
     (Resolved JUndefined,
      session\<lparr>data := data_init\<lparr>track_id := Val (JStr ''T1''),
                 track_start_time := Val (JStr ''some date''),
                 track_end_time := Val (JStr ''some date''),
                 track_distance := Val (JNum (3 / 2)),
                 track_average_speed := Val (JNum 45),
                 track_riding_time := Val (JNum 2)\<rparr>\<rparr>)"
  by code_simp

subsection \<open>The route\<close>

text \<open>
  What the handler does on a request object whose \<^verbatim>\<open>body.key\<close> can be read, which
  takes a body parser the application does not install: it sends the snapshot when the
  key is \<^verbatim>\<open>==\<close> to the digest and otherwise returns having sent nothing.
\<close>

lemma api_handler_on_parsed_body:
  assumes "path req [Key ''body'', Key ''key''] = Inr k"
  shows "api_handler e d req = Inr (if loose_eq e (key_digest e) k then Sent d else NoReply)"
  using assms by (simp add: api_handler_def)

lemma express_req_body: "prop_of (express_req rq) ''body'' = JUndefined"
  by (simp add: express_req_def)

text \<open>
  Claim C10 (the code departs from it). No request the application receives has a
  \<^verbatim>\<open>body\<close>: no body parser is installed, although the README has the key sent in the
  body. So for every request to \<^verbatim>\<open>GET /api\<close>, whatever key its bytes carry, the
  handler throws the \<^verbatim>\<open>TypeError\<close> of reading \<^verbatim>\<open>key\<close> of \<^verbatim>\<open>undefined\<close>
  before it compares anything, and the caller is answered with status 500: the request
  is not left unanswered. The last conjunct is a request that carries a wrong key.
\<close>

theorem every_api_request_gets_500:
  "prop_of (express_req rq) ''body'' = JUndefined \<and>
   api_handler e d (express_req rq) = Inl (cannot_read ''key'') \<and>
   get_api e d rq = Error500 (cannot_read ''key'') \<and>
   get_api e d rq \<noteq> Unanswered \<and>
   get_api (mock_env (canned [])) data_init
     \<lparr>rq_headers = [(''content-type'', ''application/x-www-form-urlencoded'')],
      rq_body = ''key=not-the-digest''\<rparr> = Error500 (cannot_read ''key'')"
  by (simp add: get_api_def api_handler_def express_req_def)

end
